theory Spec2Isabelle
  imports Complex_Main
begin

section \<open>FilaSense: single-pin filament diameter sensor (klippy/extras/filasense.py)\<close>

text \<open>
  The embedding follows \<^verbatim>\<open>class FilaSense\<close> method by method. Python floats are
  modelled as \<^typ>\<open>real\<close> (exact arithmetic: no rounding error, no NaN, no infinity,
  no overflow), Python integers as \<^typ>\<open>int\<close>. Exceptions are values of
  \<open>py_error\<close>; a method that can raise returns \<open>py_error + result\<close>. Calls into the
  G-code object, the runout helper and command responses are recorded as a list of
  \<open>event\<close>s, in the order the code performs them. The reactor timer's wake
  time is kept as the field \<open>timer\<close> of the state.
\<close>

subsection \<open>Errors, outputs, timer wake times\<close>

datatype py_error = ConfigError | ZeroDivisionError | IndexError

text \<open>Response texts of the command handlers; the number formatting is left abstract.\<close>

datatype message =
    MsgFilamentDiameter real
  | MsgFilamentNotPresent
  | MsgMeasurementsCleared
  | MsgAlreadyON
  | MsgTurnedON
  | MsgAlreadyOFF
  | MsgTurnedOFF
  | MsgRaw int
  | MsgLogON
  | MsgLogOFF

text \<open>\<^verbatim>\<open>"M221 S%d" % n\<close> is the only G-code script the module sends.\<close>

datatype gcode = M221 int

datatype event =
    RespondInfo message
  | NoteFilamentPresent bool
  | RunScript gcode
  | RunScriptFromCommand gcode

text \<open>
  Modelled from the spec: the reactor (klippy/reactor.py) is not part of the sources.
  Section 6 of the specification says that the controller can request "fire immediately",
  "fire after 1 unit" or "never fire again"; these are \<open>NOW\<close>, \<open>At t\<close> and \<open>NEVER\<close>.
  A timer fires at time \<open>now\<close> when its wake time has been reached.
\<close>

datatype waketime = NOW | At real | NEVER

fun timer_due :: "waketime \<Rightarrow> real \<Rightarrow> bool" where
  "timer_due NOW now = True"
| "timer_due (At t) now = (t \<le> now)"
| "timer_due NEVER now = False"

subsection \<open>Python's \<^verbatim>\<open>round\<close>\<close>

text \<open>
  \<^verbatim>\<open>round(x)\<close> of Python 3 returns the nearest integer, ties going to the even one;
  \<^verbatim>\<open>round(x, 2)\<close> does the same at the second decimal. (Python 2 sends ties away
  from zero; the model follows Python 3.)
\<close>

definition py_round :: "real \<Rightarrow> int" where
  "py_round x =
     (let f = \<lfloor>x\<rfloor>; r = x - of_int f
      in if r < 1 / 2 then f
         else if 1 / 2 < r then f + 1
         else if even f then f else f + 1)"

definition py_round2 :: "real \<Rightarrow> real" where
  "py_round2 x = of_int (py_round (x * 100)) / 100"

subsection \<open>The object state\<close>

record filasense =
  pin :: string
  diameter_1 :: real
  diameter_2 :: real
  raw_1 :: int
  raw_2 :: int
  measurement_interval :: int
  nominal_diameter :: real
  measurement_delay :: real
  max_difference :: real
  max_diameter :: real
  min_diameter :: real
  enabled :: bool
  runout_min_diameter :: real
  runout_max_diameter :: real
  logging :: bool
  use_current_diameter_while_delay :: bool
  fifo :: "(real \<times> real) list"
  raw :: int
  diameter :: real
  timer :: waketime

subsection \<open>Configuration and \<^verbatim>\<open>__init__\<close>\<close>

text \<open>
  A configuration section after parsing: every option is absent or has a value of its
  type.
\<close>

record config =
  cfg_pin :: "string option"
  cfg_diameter_1 :: "real option"
  cfg_diameter_2 :: "real option"
  cfg_raw_1 :: "int option"
  cfg_raw_2 :: "int option"
  cfg_measurement_interval :: "int option"
  cfg_nominal_diameter :: "real option"
  cfg_measurement_delay :: "real option"
  cfg_max_difference :: "real option"
  cfg_enabled :: "bool option"
  cfg_runout_min_diameter :: "real option"
  cfg_runout_max_diameter :: "real option"
  cfg_logging :: "bool option"
  cfg_use_current_diameter_while_delay :: "bool option"

text \<open>
  Modelled from the spec: the configuration accessors (klippy/configfile.py) are not part
  of the sources. An option that is absent takes the default given in the call, and is a
  configuration error when the call gives none; \<^verbatim>\<open>above = a\<close> rejects every value
  that is not greater than \<open>a\<close> (section 6: \<^verbatim>\<open>nominal_diameter (>1.0)\<close>,
  \<^verbatim>\<open>measurement_delay (>0.0)\<close>). The calls in \<^verbatim>\<open>__init__\<close> pass no other bound.
\<close>

fun cfg_get :: "'a option \<Rightarrow> 'a option \<Rightarrow> py_error + 'a" where
  "cfg_get (Some v) dflt = Inr v"
| "cfg_get None (Some d) = Inr d"
| "cfg_get None None = Inl ConfigError"

definition getfloat_above :: "real option \<Rightarrow> real \<Rightarrow> py_error + real" where
  "getfloat_above v bound =
     (case v of
        None \<Rightarrow> Inl ConfigError
      | Some x \<Rightarrow> if x \<le> bound then Inl ConfigError else Inr x)"

definition then_do :: "py_error + 'a \<Rightarrow> ('a \<Rightarrow> py_error + 'b) \<Rightarrow> py_error + 'b" where
  "then_do m f = (case m of Inl e \<Rightarrow> Inl e | Inr x \<Rightarrow> f x)"

text \<open>
  \<^verbatim>\<open>FilaSense.__init__\<close>, lines 14 to 59. The fields are read in the order of the
  source; the timer is registered without a wake time, so it starts at \<open>NEVER\<close>. Pin and
  ADC set-up, command registration and the runout helper's own options are outside the
  model.
\<close>

definition FilaSense_init :: "config \<Rightarrow> py_error + filasense" where
  "FilaSense_init c =
     then_do (cfg_get (cfg_pin c) None) (\<lambda>p.
     then_do (cfg_get (cfg_diameter_1 c) (Some (3 / 2))) (\<lambda>d1.
     then_do (cfg_get (cfg_diameter_2 c) (Some 2)) (\<lambda>d2.
     then_do (cfg_get (cfg_raw_1 c) (Some 6250)) (\<lambda>r1.
     then_do (cfg_get (cfg_raw_2 c) (Some 8750)) (\<lambda>r2.
     then_do (cfg_get (cfg_measurement_interval c) (Some 10)) (\<lambda>mi.
     then_do (getfloat_above (cfg_nominal_diameter c) 1) (\<lambda>nominal.
     then_do (getfloat_above (cfg_measurement_delay c) 0) (\<lambda>delay.
     then_do (cfg_get (cfg_max_difference c) (Some (2 / 10))) (\<lambda>md.
     then_do (cfg_get (cfg_enabled c) (Some False)) (\<lambda>en.
     then_do (cfg_get (cfg_runout_min_diameter c) (Some 1)) (\<lambda>rmin.
     then_do (cfg_get (cfg_runout_max_diameter c) (Some (nominal + md))) (\<lambda>rmax.
     then_do (cfg_get (cfg_logging c) (Some False)) (\<lambda>lg.
     then_do (cfg_get (cfg_use_current_diameter_while_delay c) (Some False)) (\<lambda>ucd.
       Inr \<lparr> pin = p, diameter_1 = d1, diameter_2 = d2, raw_1 = r1, raw_2 = r2,
             measurement_interval = mi, nominal_diameter = nominal,
             measurement_delay = delay, max_difference = md,
             max_diameter = nominal + md, min_diameter = nominal - md,
             enabled = en, runout_min_diameter = rmin, runout_max_diameter = rmax,
             logging = lg, use_current_diameter_while_delay = ucd,
             fifo = [], raw = 0, diameter = 0, timer = NEVER \<rparr>))))))))))))))"

subsection \<open>\<^verbatim>\<open>handle_ready\<close> and \<^verbatim>\<open>adc_callback\<close>\<close>

text \<open>Lines 62 to 65: the timer is set to fire at once, whatever \<open>enabled\<close> is.\<close>

definition handle_ready :: "filasense \<Rightarrow> filasense" where
  "handle_ready s = s\<lparr>timer := NOW\<rparr>"

text \<open>
  Lines 68 to 72. The quotient by \<^verbatim>\<open>raw_2 - raw_1\<close> raises ZeroDivisionError when
  the two anchors coincide; \<^verbatim>\<open>self.raw\<close> has been assigned by then.
\<close>

definition adc_callback :: "filasense \<Rightarrow> real \<Rightarrow> real \<Rightarrow> py_error + filasense" where
  "adc_callback s read_time read_value =
     (let r = py_round (read_value * 10000)
      in if raw_2 s - raw_1 s = 0 then Inl ZeroDivisionError
         else Inr (s\<lparr>raw := r,
                     diameter := py_round2 ((diameter_2 s - diameter_1 s)
                                   / of_int (raw_2 s - raw_1 s)
                                   * of_int (r - raw_1 s) + diameter_1 s)\<rparr>))"

subsection \<open>\<^verbatim>\<open>timer_callback\<close>\<close>

text \<open>
  Lines 81 to 84: the entry is appended when the FIFO is empty or the projected position
  is at least one measurement interval beyond the tail.
\<close>

definition tc_enqueue :: "filasense \<Rightarrow> real \<Rightarrow> filasense \<times> event list" where
  "tc_enqueue s epos_projected =
     (if fifo s = []
         \<or> fst (last (fifo s)) + of_int (measurement_interval s) \<le> epos_projected
      then (s\<lparr>fifo := fifo s @ [(epos_projected, diameter s)]\<rparr>,
            if logging s then [RespondInfo (MsgFilamentDiameter (diameter s))] else [])
      else (s, []))"

text \<open>Line 86.\<close>

definition filament_present :: "filasense \<Rightarrow> bool" where
  "filament_present s =
     (runout_min_diameter s \<le> diameter s \<and> diameter s \<le> runout_max_diameter s)"

text \<open>
  Lines 90 to 98: \<^verbatim>\<open>self.fifo[0]\<close> raises IndexError on an empty list; otherwise
  the head is popped once its position has been reached, and the live or the nominal
  diameter is taken before that.
\<close>

definition tc_resolve :: "filasense \<Rightarrow> real \<Rightarrow> py_error + (real \<times> filasense)" where
  "tc_resolve s epos =
     (case fifo s of
        [] \<Rightarrow> Inl IndexError
      | h # rest \<Rightarrow>
          if fst h \<le> epos then Inr (snd h, s\<lparr>fifo := rest\<rparr>)
          else if use_current_diameter_while_delay s then Inr (diameter s, s)
          else Inr (nominal_diameter s, s))"

text \<open>Lines 100 and 101.\<close>

definition tc_clamp :: "filasense \<Rightarrow> real \<Rightarrow> real" where
  "tc_clamp s diameter_to_use =
     (if \<not> (min_diameter s \<le> diameter_to_use \<and> diameter_to_use \<le> max_diameter s)
      then nominal_diameter s else diameter_to_use)"

text \<open>Line 103: the percentage sent with M221; a zero diameter raises ZeroDivisionError.\<close>

definition tc_percent :: "filasense \<Rightarrow> real \<Rightarrow> py_error + int" where
  "tc_percent s diameter_to_use =
     (if diameter_to_use = 0 then Inl ZeroDivisionError
      else Inr (py_round ((nominal_diameter s / diameter_to_use)\<^sup>2 * 100)))"

text \<open>
  Lines 75 to 112. \<open>epos\<close> is what \<^verbatim>\<open>self.toolhead.get_position()[3]\<close> returns at
  this tick. The result is the new state, the outputs and the wake time handed back to
  the reactor.
\<close>

definition timer_callback ::
  "filasense \<Rightarrow> real \<Rightarrow> real \<Rightarrow> py_error + (filasense \<times> event list \<times> waketime)" where
  "timer_callback s eventtime epos =
     (let epos_projected = epos + measurement_delay s;
          (s1, logged) = tc_enqueue s epos_projected;
          present = filament_present s1;
          out = logged @ [NoteFilamentPresent present];
          wake = (if enabled s1 then At (eventtime + 1) else NEVER)
      in if present then
           then_do (tc_resolve s1 epos) (\<lambda>(diameter_to_use, s2).
           then_do (tc_percent s2 (tc_clamp s2 diameter_to_use)) (\<lambda>percent.
             Inr (s2, out @ [RunScript (M221 percent)], wake)))
         else Inr (s1\<lparr>fifo := []\<rparr>, out @ [RunScript (M221 100)], wake))"

text \<open>
  Modelled from the spec: the reactor's dispatch is not part of the sources. A timer
  that is due has its callback run, and the value the callback returns becomes its next
  wake time; a timer that is not due is left alone.
\<close>

definition reactor_dispatch ::
  "filasense \<Rightarrow> real \<Rightarrow> real \<Rightarrow> py_error + (filasense \<times> event list)" where
  "reactor_dispatch s now epos =
     (if timer_due (timer s) now
      then then_do (timer_callback s now epos) (\<lambda>(s', out, w). Inr (s'\<lparr>timer := w\<rparr>, out))
      else Inr (s, []))"

subsection \<open>Command handlers\<close>

definition cmd_QUERY_FILAMENT_DIAMETER :: "filasense \<Rightarrow> filasense \<times> event list" where
  "cmd_QUERY_FILAMENT_DIAMETER s =
     (s, [RespondInfo (if filament_present s then MsgFilamentDiameter (diameter s)
                       else MsgFilamentNotPresent)])"

definition cmd_RESET_FILAMENT_DIAMETER_SENSOR :: "filasense \<Rightarrow> filasense \<times> event list" where
  "cmd_RESET_FILAMENT_DIAMETER_SENSOR s =
     (s\<lparr>fifo := []\<rparr>,
      [RespondInfo MsgMeasurementsCleared, RunScriptFromCommand (M221 100)])"

definition cmd_ENABLE_FILAMENT_DIAMETER_SENSOR :: "filasense \<Rightarrow> filasense \<times> event list" where
  "cmd_ENABLE_FILAMENT_DIAMETER_SENSOR s =
     (if enabled s then (s, [RespondInfo MsgAlreadyON])
      else (s\<lparr>enabled := True, timer := NOW\<rparr>, [RespondInfo MsgTurnedON]))"

definition cmd_DISABLE_FILAMENT_DIAMETER_SENSOR :: "filasense \<Rightarrow> filasense \<times> event list" where
  "cmd_DISABLE_FILAMENT_DIAMETER_SENSOR s =
     (if \<not> enabled s then (s, [RespondInfo MsgAlreadyOFF])
      else (s\<lparr>enabled := False, timer := NEVER, fifo := []\<rparr>,
            [RunScriptFromCommand (M221 100), RespondInfo MsgTurnedOFF]))"

definition cmd_QUERY_RAW_FILAMENT_DIAMETER :: "filasense \<Rightarrow> filasense \<times> event list" where
  "cmd_QUERY_RAW_FILAMENT_DIAMETER s = (s, [RespondInfo (MsgRaw (raw s))])"

definition get_status :: "filasense \<Rightarrow> real \<times> int \<times> bool" where
  "get_status s = (diameter s, raw s, enabled s)"

definition cmd_ENABLE_FILAMENT_DIAMETER_LOG :: "filasense \<Rightarrow> filasense \<times> event list" where
  "cmd_ENABLE_FILAMENT_DIAMETER_LOG s = (s\<lparr>logging := True\<rparr>, [RespondInfo MsgLogON])"

definition cmd_DISABLE_FILAMENT_DIAMETER_LOG :: "filasense \<Rightarrow> filasense \<times> event list" where
  "cmd_DISABLE_FILAMENT_DIAMETER_LOG s = (s\<lparr>logging := False\<rparr>, [RespondInfo MsgLogOFF])"

subsection \<open>Observations and runs\<close>

text \<open>The percentages of the M221 commands among the events, in order.\<close>

fun multipliers :: "event list \<Rightarrow> int list" where
  "multipliers [] = []"
| "multipliers (RunScript (M221 n) # es) = n # multipliers es"
| "multipliers (RunScriptFromCommand (M221 n) # es) = n # multipliers es"
| "multipliers (e # es) = multipliers es"

text \<open>
  The states the object can be in: built by \<^verbatim>\<open>__init__\<close> from some configuration,
  then changed by the ready event, by ADC reports, by timer dispatches and by the
  commands that write a field. The query commands leave the state as it is.
\<close>

inductive reachable :: "filasense \<Rightarrow> bool" where
  r_init: "FilaSense_init c = Inr s \<Longrightarrow> reachable s"
| r_ready: "reachable s \<Longrightarrow> reachable (handle_ready s)"
| r_adc: "reachable s \<Longrightarrow> adc_callback s read_time read_value = Inr s' \<Longrightarrow> reachable s'"
| r_timer: "reachable s \<Longrightarrow> reactor_dispatch s now epos = Inr (s', out) \<Longrightarrow> reachable s'"
| r_reset: "reachable s \<Longrightarrow> reachable (fst (cmd_RESET_FILAMENT_DIAMETER_SENSOR s))"
| r_enable: "reachable s \<Longrightarrow> reachable (fst (cmd_ENABLE_FILAMENT_DIAMETER_SENSOR s))"
| r_disable: "reachable s \<Longrightarrow> reachable (fst (cmd_DISABLE_FILAMENT_DIAMETER_SENSOR s))"
| r_log_on: "reachable s \<Longrightarrow> reachable (fst (cmd_ENABLE_FILAMENT_DIAMETER_LOG s))"
| r_log_off: "reachable s \<Longrightarrow> reachable (fst (cmd_DISABLE_FILAMENT_DIAMETER_LOG s))"

text \<open>
  A run of enqueue steps alone (lines 81 to 84), one per pair of projected position and
  diameter reading.
\<close>

fun enqueue_attempts :: "filasense \<Rightarrow> (real \<times> real) list \<Rightarrow> filasense" where
  "enqueue_attempts s [] = s"
| "enqueue_attempts s ((p, d) # rest) =
     enqueue_attempts (fst (tc_enqueue (s\<lparr>diameter := d\<rparr>) p)) rest"

text \<open>
  A configuration that gives only the options without a default (1.75 mm filament, 70 mm
  between sensor and nozzle), and the state \<^verbatim>\<open>__init__\<close> builds from it.
\<close>

definition cfg_example :: config where
  "cfg_example =
     \<lparr> cfg_pin = Some ''PA0'', cfg_diameter_1 = None, cfg_diameter_2 = None,
       cfg_raw_1 = None, cfg_raw_2 = None, cfg_measurement_interval = None,
       cfg_nominal_diameter = Some (7 / 4), cfg_measurement_delay = Some 70,
       cfg_max_difference = None, cfg_enabled = None, cfg_runout_min_diameter = None,
       cfg_runout_max_diameter = None, cfg_logging = None,
       cfg_use_current_diameter_while_delay = None \<rparr>"

definition st_example :: filasense where
  "st_example =
     \<lparr> pin = ''PA0'', diameter_1 = 3 / 2, diameter_2 = 2, raw_1 = 6250, raw_2 = 8750,
       measurement_interval = 10, nominal_diameter = 7 / 4, measurement_delay = 70,
       max_difference = 1 / 5, max_diameter = 39 / 20, min_diameter = 31 / 20,
       enabled = False, runout_min_diameter = 1, runout_max_diameter = 39 / 20,
       logging = False, use_current_diameter_while_delay = False,
       fifo = [], raw = 0, diameter = 0, timer = NEVER \<rparr>"

text \<open>
  States used as concrete inputs. \<open>st_running\<close>: \<open>enabled\<close> configured true, an ADC
  report of 0.625 (diameter 1.50) and the first tick at extruder position 0.
  \<open>st_queued\<close>: a reading of 1.70 queued for position 70, the live reading now 1.80.
  \<open>st_thin\<close>: as \<open>st_running\<close> but disabled and with \<open>max_difference\<close> 0.3, so that
  1.50 is within bounds. \<open>st_exact\<close>: a reading of exactly the nominal 1.75 queued for
  position 70.
\<close>

definition st_running :: filasense where
  "st_running = st_example\<lparr>enabled := True, raw := 6250, diameter := 3 / 2,
     fifo := [(70, 3 / 2)], timer := At 1\<rparr>"

definition st_queued :: filasense where
  "st_queued = st_example\<lparr>raw := 7750, diameter := 9 / 5, fifo := [(70, 17 / 10)]\<rparr>"



section \<open>Basic facts\<close>

lemma then_do_Inr: "then_do m f = Inr y \<longleftrightarrow> (\<exists>x. m = Inr x \<and> f x = Inr y)"
  by (cases m) (simp_all add: then_do_def)

lemma then_do_Inl: "then_do m f = Inl e \<longleftrightarrow> (m = Inl e \<or> (\<exists>x. m = Inr x \<and> f x = Inl e))"
  by (cases m) (simp_all add: then_do_def)

lemma multipliers_append: "multipliers (xs @ ys) = multipliers xs @ multipliers ys"
  by (induction xs rule: multipliers.induct) simp_all

lemma tc_enqueue_no_script: "multipliers (snd (tc_enqueue s p)) = []"
  by (simp add: tc_enqueue_def)

lemma tc_enqueue_nonempty: "fifo (fst (tc_enqueue s p)) \<noteq> []"
  by (simp add: tc_enqueue_def)

lemma tc_enqueue_present: "filament_present (fst (tc_enqueue s p)) = filament_present s"
  by (simp add: tc_enqueue_def filament_present_def)

lemma tc_resolve_no_IndexError: "fifo s \<noteq> [] \<Longrightarrow> tc_resolve s epos \<noteq> Inl IndexError"
  by (cases "fifo s") (simp_all add: tc_resolve_def)

lemma init_example: "FilaSense_init cfg_example = Inr st_example"
  by (simp add: FilaSense_init_def cfg_example_def st_example_def then_do_def
      getfloat_above_def)

subsection \<open>Rounding\<close>

lemma py_round_of_int: "py_round (of_int k) = k"
  by (simp add: py_round_def)

lemma py_round_100: "py_round 100 = 100"
  using py_round_of_int [of 100] by simp



subsection \<open>Fields that a tick leaves alone\<close>

lemma tc_enqueue_fields:
  "nominal_diameter (fst (tc_enqueue s p)) = nominal_diameter s"
  "min_diameter (fst (tc_enqueue s p)) = min_diameter s"
  "max_diameter (fst (tc_enqueue s p)) = max_diameter s"
  "enabled (fst (tc_enqueue s p)) = enabled s"
  by (simp_all add: tc_enqueue_def)

lemma tc_enqueue_nominal: "nominal_diameter (fst (tc_enqueue s p)) = nominal_diameter s"
  by (simp add: tc_enqueue_def)

lemma tc_enqueue_interval:
  "measurement_interval (fst (tc_enqueue s p)) = measurement_interval s"
  by (simp add: tc_enqueue_def)

lemma tc_resolve_fields:
  "tc_resolve s epos = Inr (d, s2) \<Longrightarrow>
     nominal_diameter s2 = nominal_diameter s \<and> min_diameter s2 = min_diameter s
     \<and> max_diameter s2 = max_diameter s \<and> enabled s2 = enabled s"
  by (auto simp add: tc_resolve_def split: list.splits if_splits)

lemma tc_resolve_nominal:
  "tc_resolve s epos = Inr (d, s2) \<Longrightarrow> nominal_diameter s2 = nominal_diameter s"
  by (auto simp add: tc_resolve_def split: list.splits if_splits)

lemma timer_callback_nominal:
  "timer_callback s eventtime epos = Inr (s', out, w) \<Longrightarrow> nominal_diameter s' = nominal_diameter s"
  by (auto simp add: timer_callback_def Let_def split_def then_do_Inr tc_enqueue_nominal
      dest!: tc_resolve_nominal split: if_splits)

lemma reactor_dispatch_nominal:
  "reactor_dispatch s now epos = Inr (s', out) \<Longrightarrow> nominal_diameter s' = nominal_diameter s"
  by (auto simp add: reactor_dispatch_def then_do_Inr dest!: timer_callback_nominal
      split: if_splits)

lemma adc_callback_nominal:
  "adc_callback s t v = Inr s' \<Longrightarrow> nominal_diameter s' = nominal_diameter s"
  by (auto simp add: adc_callback_def Let_def split: if_splits)

lemma timer_callback_wake:
  assumes "timer_callback s now epos = Inr (s', out, w)"
  shows "out \<noteq> [] \<and> enabled s' = enabled s
       \<and> w = (if enabled s then At (now + 1) else NEVER)"
proof (cases "filament_present (fst (tc_enqueue s (epos + measurement_delay s)))")
  case False
  with assms show ?thesis
    by (auto simp add: timer_callback_def Let_def split_def tc_enqueue_fields)
next
  case True
  with assms obtain d s2 where
    r: "tc_resolve (fst (tc_enqueue s (epos + measurement_delay s))) epos = Inr (d, s2)"
    and "s' = s2" "out \<noteq> []" "w = (if enabled s then At (now + 1) else NEVER)"
    by (auto simp add: timer_callback_def Let_def split_def then_do_Inr tc_enqueue_fields)
  with tc_resolve_fields [OF r] show ?thesis
    by (simp add: tc_enqueue_fields)
qed

subsection \<open>The nominal diameter of a reachable state\<close>

lemma init_nominal: "FilaSense_init c = Inr s \<Longrightarrow> 1 < nominal_diameter s"
  by (auto simp add: FilaSense_init_def then_do_Inr getfloat_above_def
      split: option.splits if_splits)

lemma reachable_nominal: "reachable s \<Longrightarrow> 1 < nominal_diameter s"
proof (induction rule: reachable.induct)
  case (r_init c s)
  then show ?case by (rule init_nominal)
next
  case (r_adc s read_time read_value s')
  then show ?case by (simp add: adc_callback_nominal)
next
  case (r_timer s now epos s' out)
  then show ?case by (simp add: reactor_dispatch_nominal)
qed (simp_all add: handle_ready_def cmd_RESET_FILAMENT_DIAMETER_SENSOR_def
      cmd_ENABLE_FILAMENT_DIAMETER_SENSOR_def cmd_DISABLE_FILAMENT_DIAMETER_SENSOR_def
      cmd_ENABLE_FILAMENT_DIAMETER_LOG_def cmd_DISABLE_FILAMENT_DIAMETER_LOG_def)

lemma reachable_st_running: "reachable st_running"
proof -
  have "FilaSense_init (cfg_example\<lparr>cfg_enabled := Some True\<rparr>)
          = Inr (st_example\<lparr>enabled := True\<rparr>)"
    by (simp add: FilaSense_init_def cfg_example_def st_example_def then_do_def
        getfloat_above_def)
  then have r0: "reachable (st_example\<lparr>enabled := True\<rparr>)"
    by (rule r_init)
  have r1: "reachable (handle_ready (st_example\<lparr>enabled := True\<rparr>))"
    using r0 by (rule r_ready)
  have "adc_callback (handle_ready (st_example\<lparr>enabled := True\<rparr>)) 0 (625 / 1000)
          = Inr (st_example\<lparr>enabled := True, raw := 6250, diameter := 3 / 2, timer := NOW\<rparr>)"
    by (simp add: adc_callback_def handle_ready_def st_example_def py_round_def
        py_round2_def Let_def)
  with r1 have r2: "reachable (st_example\<lparr>enabled := True, raw := 6250, diameter := 3 / 2,
      timer := NOW\<rparr>)"
    by (rule r_adc)
  have "reactor_dispatch (st_example\<lparr>enabled := True, raw := 6250, diameter := 3 / 2,
            timer := NOW\<rparr>) 0 0
          = Inr (st_running, [NoteFilamentPresent True, RunScript (M221 100)])"
    by (simp add: reactor_dispatch_def timer_callback_def tc_enqueue_def
        filament_present_def tc_resolve_def tc_clamp_def tc_percent_def then_do_def
        st_running_def st_example_def py_round_100 Let_def)
  with r2 show ?thesis
    by (rule r_timer)
qed

subsection \<open>A tick with filament present\<close>

lemma present_tick:
  assumes "filament_present s"
    and "tc_resolve (fst (tc_enqueue s (epos + measurement_delay s))) epos = Inr (d, s2)"
    and "tc_clamp s2 d \<noteq> 0"
  shows "timer_callback s eventtime epos =
           Inr (s2, snd (tc_enqueue s (epos + measurement_delay s))
                    @ [NoteFilamentPresent True,
                       RunScript (M221 (py_round ((nominal_diameter s / tc_clamp s2 d)\<^sup>2 * 100)))],
                if enabled s then At (eventtime + 1) else NEVER)"
proof -
  let ?s1 = "fst (tc_enqueue s (epos + measurement_delay s))"
  have p: "filament_present ?s1" using assms(1) by (simp add: tc_enqueue_present)
  have n: "nominal_diameter s2 = nominal_diameter s"
    using tc_resolve_fields [OF assms(2)] by (simp add: tc_enqueue_fields)
  show ?thesis
    using p assms(2,3) n
    by (simp add: timer_callback_def Let_def split_def then_do_def tc_percent_def
        tc_enqueue_fields)
qed

subsection \<open>Gaps between FIFO entries\<close>

text \<open>
  With a non-negative interval every entry lies at least one interval beyond the one
  before it; the enqueue step keeps that, since it compares with the tail.
\<close>

lemma sorted_wrt_last:
  "sorted_wrt P xs \<Longrightarrow> x \<in> set xs \<Longrightarrow> x = last xs \<or> P x (last xs)"
  by (induction xs) (auto split: if_splits)

lemma tc_enqueue_gaps:
  assumes "0 \<le> measurement_interval s"
    and "sorted_wrt (\<lambda>x y. fst x + of_int (measurement_interval s) \<le> fst y) (fifo s)"
  shows "sorted_wrt (\<lambda>x y. fst x + of_int (measurement_interval s) \<le> fst y)
           (fifo (fst (tc_enqueue s p)))"
proof (cases "fifo s = [] \<or> fst (last (fifo s)) + of_int (measurement_interval s) \<le> p")
  case False
  then show ?thesis using assms(2) by (simp add: tc_enqueue_def)
next
  case True
  have "fst x + of_int (measurement_interval s) \<le> p" if "x \<in> set (fifo s)" for x
  proof -
    from that have ne: "fifo s \<noteq> []" by auto
    with True have l: "fst (last (fifo s)) + of_int (measurement_interval s) \<le> p" by simp
    from sorted_wrt_last [OF assms(2) that]
    have "fst x \<le> fst (last (fifo s))" using assms(1) by auto
    with l show ?thesis by simp
  qed
  with True assms(2) show ?thesis
    by (simp add: tc_enqueue_def sorted_wrt_append)
qed

lemma enqueue_attempts_interval:
  "measurement_interval (enqueue_attempts s attempts) = measurement_interval s"
  by (induction s attempts rule: enqueue_attempts.induct) (simp_all add: tc_enqueue_interval)

lemma enqueue_attempts_gaps:
  assumes "0 \<le> measurement_interval s"
    and "sorted_wrt (\<lambda>x y. fst x + of_int (measurement_interval s) \<le> fst y) (fifo s)"
  shows "sorted_wrt (\<lambda>x y. fst x + of_int (measurement_interval s) \<le> fst y)
           (fifo (enqueue_attempts s attempts))"
  using assms
proof (induction s attempts rule: enqueue_attempts.induct)
  case (1 s)
  then show ?case by simp
next
  case (2 s p d rest)
  let ?s' = "fst (tc_enqueue (s\<lparr>diameter := d\<rparr>) p)"
  have i: "measurement_interval ?s' = measurement_interval s"
    by (simp add: tc_enqueue_interval)
  have "sorted_wrt (\<lambda>x y. fst x + of_int (measurement_interval (s\<lparr>diameter := d\<rparr>)) \<le> fst y)
          (fifo ?s')"
    by (rule tc_enqueue_gaps) (use "2.prems" in simp_all)
  then have "sorted_wrt (\<lambda>x y. fst x + of_int (measurement_interval ?s') \<le> fst y)
          (fifo (enqueue_attempts ?s' rest))"
    using "2.prems"(1) by (intro "2.IH") (simp_all add: i)
  then show ?case by (simp add: i)
qed

lemma enqueue_attempts_spaced:
  assumes "fifo s = []"
  shows "sorted_wrt (\<lambda>x y. of_int (measurement_interval s) \<le> \<bar>fst y - fst x\<bar>)
           (fifo (enqueue_attempts s attempts))"
proof (cases "0 \<le> measurement_interval s")
  case True
  have "sorted_wrt (\<lambda>x y. fst x + of_int (measurement_interval s) \<le> fst y)
           (fifo (enqueue_attempts s attempts))"
    by (rule enqueue_attempts_gaps [OF True]) (simp add: assms)
  then show ?thesis
    by (rule sorted_wrt_mono_rel [rotated]) auto
next
  case False
  have "sorted_wrt (\<lambda>x y. True) (fifo (enqueue_attempts s attempts))"
    by simp
  then show ?thesis
    by (rule sorted_wrt_mono_rel [rotated]) (use False in auto)
qed

section \<open>The claims\<close>

subsection \<open>Fallback to the nominal diameter\<close>

text \<open>
  Claim C1. At a tick in a reachable state with filament present, let
  \<open>diameter_to_use\<close> be what lines 90 to 98 resolve (the popped queue head, the live
  reading or the nominal diameter). If it lies outside \<open>[min_diameter, max_diameter]\<close>,
  then line 101 replaces it by \<open>nominal_diameter\<close> and the tick sends M221 with
  percentage 100. Reachability is used for \<open>nominal_diameter > 1\<close>, which
  \<^verbatim>\<open>__init__\<close> enforces.
\<close>

theorem out_of_bounds_diameter_emits_100:
  assumes "reachable s"
    and "filament_present s"
    and "tc_resolve (fst (tc_enqueue s (epos + measurement_delay s))) epos
           = Inr (diameter_to_use, s2)"
    and "\<not> (min_diameter s \<le> diameter_to_use \<and> diameter_to_use \<le> max_diameter s)"
  shows "tc_clamp s2 diameter_to_use = nominal_diameter s
       \<and> timer_callback s eventtime epos =
           Inr (s2, snd (tc_enqueue s (epos + measurement_delay s))
                    @ [NoteFilamentPresent True, RunScript (M221 100)],
                if enabled s then At (eventtime + 1) else NEVER)"
proof -
  have f: "nominal_diameter s2 = nominal_diameter s" "min_diameter s2 = min_diameter s"
      "max_diameter s2 = max_diameter s"
    using tc_resolve_fields [OF assms(3)] by (simp_all add: tc_enqueue_fields)
  have c: "tc_clamp s2 diameter_to_use = nominal_diameter s"
    using assms(4) f by (simp add: tc_clamp_def)
  have nz: "nominal_diameter s \<noteq> 0"
    using reachable_nominal [OF assms(1)] by simp
  then have "tc_clamp s2 diameter_to_use \<noteq> 0" using c by simp
  from present_tick [OF assms(2,3) this, of eventtime] c nz show ?thesis
    by (simp add: py_round_100)
qed

theorem out_of_bounds_diameter_emits_100_witness:
  "reachable st_running \<and> filament_present st_running
   \<and> tc_resolve (fst (tc_enqueue st_running (70 + measurement_delay st_running))) 70
       = Inr (3 / 2, st_running\<lparr>fifo := [(140, 3 / 2)]\<rparr>)
   \<and> \<not> (min_diameter st_running \<le> 3 / 2 \<and> 3 / 2 \<le> max_diameter st_running)
   \<and> tc_clamp (st_running\<lparr>fifo := [(140, 3 / 2)]\<rparr>) (3 / 2) = nominal_diameter st_running
   \<and> timer_callback st_running 1 70
       = Inr (st_running\<lparr>fifo := [(140, 3 / 2)]\<rparr>,
              snd (tc_enqueue st_running (70 + measurement_delay st_running))
                @ [NoteFilamentPresent True, RunScript (M221 100)],
              if enabled st_running then At (1 + 1) else NEVER)"
proof -
  have h1: "reachable st_running"
    by (rule reachable_st_running)
  have h2: "filament_present st_running"
    by (simp add: filament_present_def st_running_def st_example_def)
  have h3: "tc_resolve (fst (tc_enqueue st_running (70 + measurement_delay st_running))) 70
       = Inr (3 / 2, st_running\<lparr>fifo := [(140, 3 / 2)]\<rparr>)"
    by (simp add: tc_enqueue_def tc_resolve_def st_running_def st_example_def)
  have h4: "\<not> (min_diameter st_running \<le> 3 / 2 \<and> 3 / 2 \<le> max_diameter st_running)"
    by (simp add: st_running_def st_example_def)
  from h1 h2 h3 h4 out_of_bounds_diameter_emits_100 [OF h1 h2 h3 h4, of 1] show ?thesis
    by blast
qed

subsection \<open>Rate limit of the FIFO\<close>

text \<open>
  Claim C2. The enqueue step appends its entry exactly when the FIFO is empty or the
  projected position is at least the tail's position plus \<open>measurement_interval\<close>.
  Starting from an empty FIFO, after each attempt of any run of enqueue steps, any two
  entries of the FIFO are at least \<open>measurement_interval\<close> apart. The run need not even
  be increasing.
\<close>

theorem enqueue_rate_limit:
  "fifo (fst (tc_enqueue s p))
     = (if fifo s = [] \<or> fst (last (fifo s)) + of_int (measurement_interval s) \<le> p
        then fifo s @ [(p, diameter s)] else fifo s)
   \<and> (fifo s = [] \<longrightarrow>
        (\<forall>n i j. n \<le> length attempts \<and> i < j
           \<and> j < length (fifo (enqueue_attempts s (take n attempts))) \<longrightarrow>
           of_int (measurement_interval s)
             \<le> \<bar>fst (fifo (enqueue_attempts s (take n attempts)) ! j)
                - fst (fifo (enqueue_attempts s (take n attempts)) ! i)\<bar>))"
proof (intro conjI impI allI)
  show "fifo (fst (tc_enqueue s p))
     = (if fifo s = [] \<or> fst (last (fifo s)) + of_int (measurement_interval s) \<le> p
        then fifo s @ [(p, diameter s)] else fifo s)"
    by (simp add: tc_enqueue_def)
next
  fix n i j
  assume e: "fifo s = []"
    and b: "n \<le> length attempts \<and> i < j
           \<and> j < length (fifo (enqueue_attempts s (take n attempts)))"
  from enqueue_attempts_spaced [OF e, of "take n attempts"] b
  show "of_int (measurement_interval s)
             \<le> \<bar>fst (fifo (enqueue_attempts s (take n attempts)) ! j)
                - fst (fifo (enqueue_attempts s (take n attempts)) ! i)\<bar>"
    by (simp add: sorted_wrt_iff_nth_less)
qed

theorem enqueue_rate_limit_witness:
  "fifo st_example = []
   \<and> 5 \<le> length [(70, 17 / 10), (75, 9 / 5), (80, 9 / 5), (85, 7 / 4), (95, 8 / 5) :: real \<times> real]
   \<and> (0::nat) < 2
   \<and> fifo (enqueue_attempts st_example
              (take 5 [(70, 17 / 10), (75, 9 / 5), (80, 9 / 5), (85, 7 / 4), (95, 8 / 5)]))
       = [(70, 17 / 10), (80, 9 / 5), (95, 8 / 5)]
   \<and> of_int (measurement_interval st_example)
       \<le> \<bar>fst (fifo (enqueue_attempts st_example
                      (take 5 [(70, 17 / 10), (75, 9 / 5), (80, 9 / 5), (85, 7 / 4), (95, 8 / 5)])) ! 2)
          - fst (fifo (enqueue_attempts st_example
                      (take 5 [(70, 17 / 10), (75, 9 / 5), (80, 9 / 5), (85, 7 / 4), (95, 8 / 5)])) ! 0)\<bar>"
proof -
  let ?a = "[(70, 17 / 10), (75, 9 / 5), (80, 9 / 5), (85, 7 / 4), (95, 8 / 5) :: real \<times> real]"
  let ?q = "fifo (enqueue_attempts st_example (take 5 ?a))"
  have e: "fifo st_example = []"
    by (simp add: st_example_def)
  have run: "?q = [(70, 17 / 10), (80, 9 / 5), (95, 8 / 5)]"
    by (simp add: tc_enqueue_def st_example_def)
  have b1: "5 \<le> length ?a" and b2: "(0::nat) < 2"
    by simp_all
  have b3: "2 < length ?q"
    by (simp only: run) simp
  from b1 b2 b3 have b: "5 \<le> length ?a \<and> (0::nat) < 2 \<and> 2 < length ?q"
    by (intro conjI)
  note spaced = enqueue_rate_limit [of st_example 0 ?a, THEN conjunct2, rule_format, OF e b]
  show ?thesis
    by (intro conjI; (rule e b1 b2 run spaced))
qed

subsection \<open>Filament absent\<close>

text \<open>
  Claim C3. A tick at which the current diameter lies outside
  \<open>[runout_min_diameter, runout_max_diameter]\<close> returns normally, sends exactly one
  M221 command, with percentage 100, and leaves the FIFO empty, whatever the FIFO held
  before the tick.
\<close>

theorem absent_tick_clears_fifo_and_emits_100:
  assumes "\<not> (runout_min_diameter s \<le> diameter s \<and> diameter s \<le> runout_max_diameter s)"
  shows "\<exists>s' out wake. timer_callback s eventtime epos = Inr (s', out, wake)
           \<and> fifo s' = [] \<and> multipliers out = [100]"
proof -
  have "\<not> filament_present (fst (tc_enqueue s (epos + measurement_delay s)))"
    unfolding tc_enqueue_present using assms by (simp add: filament_present_def)
  then show ?thesis
    by (simp add: timer_callback_def Let_def split_def multipliers_append
        tc_enqueue_no_script)
qed

theorem absent_tick_clears_fifo_and_emits_100_witness:
  "\<not> (runout_min_diameter (st_example\<lparr>fifo := [(70, 17 / 10), (80, 9 / 5)]\<rparr>)
        \<le> diameter (st_example\<lparr>fifo := [(70, 17 / 10), (80, 9 / 5)]\<rparr>)
      \<and> diameter (st_example\<lparr>fifo := [(70, 17 / 10), (80, 9 / 5)]\<rparr>)
        \<le> runout_max_diameter (st_example\<lparr>fifo := [(70, 17 / 10), (80, 9 / 5)]\<rparr>))
   \<and> (\<exists>s' out wake.
         timer_callback (st_example\<lparr>fifo := [(70, 17 / 10), (80, 9 / 5)]\<rparr>) 5 20
           = Inr (s', out, wake)
         \<and> fifo s' = [] \<and> multipliers out = [100])"
proof -
  have h: "\<not> (runout_min_diameter (st_example\<lparr>fifo := [(70, 17 / 10), (80, 9 / 5)]\<rparr>)
        \<le> diameter (st_example\<lparr>fifo := [(70, 17 / 10), (80, 9 / 5)]\<rparr>)
      \<and> diameter (st_example\<lparr>fifo := [(70, 17 / 10), (80, 9 / 5)]\<rparr>)
        \<le> runout_max_diameter (st_example\<lparr>fifo := [(70, 17 / 10), (80, 9 / 5)]\<rparr>))"
    by (simp add: st_example_def)
  from h absent_tick_clears_fifo_and_emits_100 [OF h, of 5 20] show ?thesis
    by blast
qed

subsection \<open>Enqueue, then pop\<close>

text \<open>
  Claim C4, as stated, fails when the FIFO already holds an entry: with 1.70 queued for
  position 70, enqueueing the reading 1.80 at position 80 and running the dequeue step at
  position 80 pops the older head and yields 1.70, not the 1.80 just enqueued.
\<close>

theorem round_trip_fails_on_nonempty_fifo:
  "tc_enqueue st_queued 80 = (st_queued\<lparr>fifo := [(70, 17 / 10), (80, 9 / 5)]\<rparr>, [])
   \<and> tc_resolve (st_queued\<lparr>fifo := [(70, 17 / 10), (80, 9 / 5)]\<rparr>) 80
       = Inr (17 / 10, st_queued\<lparr>fifo := [(80, 9 / 5)]\<rparr>)
   \<and> diameter st_queued = 9 / 5 \<and> (17 / 10 :: real) \<noteq> 9 / 5"
  by (simp add: tc_enqueue_def tc_resolve_def st_queued_def st_example_def)

text \<open>
  Claim C4, amended. When the FIFO is empty, enqueueing \<open>(p, d)\<close> and then running the
  dequeue step at extruder position \<open>p\<close> pops that entry, yields exactly \<open>d\<close> and
  leaves the FIFO empty again.
\<close>

theorem round_trip_on_empty_fifo:
  assumes "fifo s = []"
  shows "tc_enqueue (s\<lparr>diameter := d\<rparr>) p
           = (s\<lparr>diameter := d, fifo := [(p, d)]\<rparr>,
              if logging s then [RespondInfo (MsgFilamentDiameter d)] else [])
       \<and> tc_resolve (s\<lparr>diameter := d, fifo := [(p, d)]\<rparr>) p
           = Inr (d, s\<lparr>diameter := d, fifo := []\<rparr>)"
  using assms by (simp add: tc_enqueue_def tc_resolve_def)

theorem round_trip_on_empty_fifo_witness:
  "fifo st_example = []
   \<and> tc_enqueue (st_example\<lparr>diameter := 9 / 5\<rparr>) 80
       = (st_example\<lparr>diameter := 9 / 5, fifo := [(80, 9 / 5)]\<rparr>,
          if logging st_example then [RespondInfo (MsgFilamentDiameter (9 / 5))] else [])
   \<and> tc_resolve (st_example\<lparr>diameter := 9 / 5, fifo := [(80, 9 / 5)]\<rparr>) 80
       = Inr (9 / 5, st_example\<lparr>diameter := 9 / 5, fifo := []\<rparr>)"
proof -
  have h: "fifo st_example = []"
    by (simp add: st_example_def)
  from h round_trip_on_empty_fifo [OF h, of "9 / 5" 80] show ?thesis
    by blast
qed

subsection \<open>The calibration anchors\<close>




subsection \<open>The extrusion multiplier\<close>



subsection \<open>Starting and stopping the timer\<close>

text \<open>
  Claim C7, as stated, fails: with \<open>enabled\<close> configured false, the ready event still
  sets the timer to fire at once, and the tick runs (it reports filament absent and sends
  M221 S100) before the timer goes back to \<open>NEVER\<close>.
\<close>

theorem tick_runs_at_ready_when_disabled:
  "FilaSense_init cfg_example = Inr st_example \<and> \<not> enabled st_example
   \<and> timer_due (timer (handle_ready st_example)) 0
   \<and> reactor_dispatch (handle_ready st_example) 0 0
       = Inr (st_example, [NoteFilamentPresent False, RunScript (M221 100)])"
  by (simp add: init_example)
     (simp add: reactor_dispatch_def handle_ready_def timer_callback_def tc_enqueue_def
        filament_present_def then_do_def st_example_def Let_def)

text \<open>
  Claim C7, amended. After \<^verbatim>\<open>__init__\<close> the timer is stopped, whatever
  \<open>enabled\<close> is. The ready event always schedules an immediate tick, and the dispatch
  that follows runs the tick callback; when that tick returns, the timer is stopped again
  if \<open>enabled\<close> is false and is set one time unit ahead if it is true. The enable
  command starts the timer exactly when \<open>enabled\<close> was false. A stopped timer is left
  stopped by a dispatch, by ADC reports and by the reset, disable and logging commands.
\<close>

theorem timer_start_and_stop:
  "(FilaSense_init c = Inr s0 \<longrightarrow> timer s0 = NEVER)
   \<and> timer (handle_ready s) = NOW
   \<and> reactor_dispatch (handle_ready s) now epos
       = then_do (timer_callback (handle_ready s) now epos)
           (\<lambda>(s', out, w). Inr (s'\<lparr>timer := w\<rparr>, out))
   \<and> (reactor_dispatch (handle_ready s) now epos = Inr (s', out) \<longrightarrow>
        out \<noteq> [] \<and> enabled s' = enabled s
        \<and> timer s' = (if enabled s then At (now + 1) else NEVER))
   \<and> timer (fst (cmd_ENABLE_FILAMENT_DIAMETER_SENSOR s)) = (if enabled s then timer s else NOW)
   \<and> (timer s = NEVER \<longrightarrow>
        reactor_dispatch s now epos = Inr (s, [])
        \<and> (adc_callback s read_time read_value = Inr s'' \<longrightarrow> timer s'' = NEVER)
        \<and> timer (fst (cmd_RESET_FILAMENT_DIAMETER_SENSOR s)) = NEVER
        \<and> timer (fst (cmd_DISABLE_FILAMENT_DIAMETER_SENSOR s)) = NEVER
        \<and> timer (fst (cmd_ENABLE_FILAMENT_DIAMETER_LOG s)) = NEVER
        \<and> timer (fst (cmd_DISABLE_FILAMENT_DIAMETER_LOG s)) = NEVER)"
proof -
  have i: "timer s0 = NEVER" if "FilaSense_init c = Inr s0"
    using that by (auto simp add: FilaSense_init_def then_do_Inr)
  have d: "reactor_dispatch (handle_ready s) now epos
       = then_do (timer_callback (handle_ready s) now epos)
           (\<lambda>(s', out, w). Inr (s'\<lparr>timer := w\<rparr>, out))"
    by (simp add: reactor_dispatch_def handle_ready_def)
  have t: "out \<noteq> [] \<and> enabled s' = enabled s
        \<and> timer s' = (if enabled s then At (now + 1) else NEVER)"
    if "reactor_dispatch (handle_ready s) now epos = Inr (s', out)"
  proof -
    from that d obtain s1 w where
      c: "timer_callback (handle_ready s) now epos = Inr (s1, out, w)"
      and s': "s' = s1\<lparr>timer := w\<rparr>"
      by (auto simp add: then_do_Inr)
    from timer_callback_wake [OF c] s' show ?thesis
      by (simp add: handle_ready_def)
  qed
  have n: "adc_callback s read_time read_value = Inr s'' \<longrightarrow> timer s'' = timer s"
    by (auto simp add: adc_callback_def Let_def split: if_splits)
  have r: "timer s = NEVER \<longrightarrow> reactor_dispatch s now epos = Inr (s, [])"
    by (simp add: reactor_dispatch_def)
  from i d t n r show ?thesis
    by (simp add: handle_ready_def cmd_ENABLE_FILAMENT_DIAMETER_SENSOR_def
        cmd_RESET_FILAMENT_DIAMETER_SENSOR_def cmd_DISABLE_FILAMENT_DIAMETER_SENSOR_def
        cmd_ENABLE_FILAMENT_DIAMETER_LOG_def cmd_DISABLE_FILAMENT_DIAMETER_LOG_def)
qed

theorem timer_start_and_stop_witness:
  "FilaSense_init cfg_example = Inr st_example
   \<and> timer st_example = NEVER
   \<and> reactor_dispatch (handle_ready st_example) 0 0
       = Inr (st_example, [NoteFilamentPresent False, RunScript (M221 100)])
   \<and> [NoteFilamentPresent False, RunScript (M221 100)] \<noteq> []
   \<and> timer st_example = (if enabled st_example then At (0 + 1) else NEVER)
   \<and> reactor_dispatch st_example 0 0 = Inr (st_example, [])
   \<and> adc_callback st_example 0 (625 / 1000)
       = Inr (st_example\<lparr>raw := 6250, diameter := 3 / 2\<rparr>)
   \<and> timer (st_example\<lparr>raw := 6250, diameter := 3 / 2\<rparr>) = NEVER"
proof -
  have h1: "FilaSense_init cfg_example = Inr st_example"
    by (rule init_example)
  have h2: "reactor_dispatch (handle_ready st_example) 0 0
       = Inr (st_example, [NoteFilamentPresent False, RunScript (M221 100)])"
    by (simp add: reactor_dispatch_def handle_ready_def timer_callback_def tc_enqueue_def
        filament_present_def then_do_def st_example_def Let_def)
  have h3: "timer st_example = NEVER"
    by (simp add: st_example_def)
  have h4: "adc_callback st_example 0 (625 / 1000)
       = Inr (st_example\<lparr>raw := 6250, diameter := 3 / 2\<rparr>)"
    by (simp add: adc_callback_def st_example_def py_round_def py_round2_def Let_def)
  from h1 h2 h3 h4
    timer_start_and_stop [of cfg_example st_example st_example 0 0 st_example
      "[NoteFilamentPresent False, RunScript (M221 100)]" 0 "625 / 1000"
      "st_example\<lparr>raw := 6250, diameter := 3 / 2\<rparr>"]
  show ?thesis
    by blast
qed

subsection \<open>Configuration faults\<close>

text \<open>
  Claim C8 against the code. \<^verbatim>\<open>__init__\<close> accepts a configuration with
  \<open>raw_2 = raw_1 = 6250\<close>, and the first ADC report then raises ZeroDivisionError in
  the diameter estimator; it also accepts \<open>measurement_interval = 0\<close>.
\<close>

theorem equal_anchors_accepted_then_division_by_zero:
  "FilaSense_init (cfg_example\<lparr>cfg_raw_2 := Some 6250\<rparr>) = Inr (st_example\<lparr>raw_2 := 6250\<rparr>)
   \<and> adc_callback (st_example\<lparr>raw_2 := 6250\<rparr>) 0 (7 / 10) = Inl ZeroDivisionError
   \<and> FilaSense_init (cfg_example\<lparr>cfg_measurement_interval := Some 0\<rparr>)
       = Inr (st_example\<lparr>measurement_interval := 0\<rparr>)"
  by (simp add: FilaSense_init_def cfg_example_def st_example_def then_do_def
      getfloat_above_def adc_callback_def)

subsection \<open>The disable command\<close>

text \<open>
  Claim C9. When \<open>enabled\<close> is already false, the disable command only answers that the
  sensor is already off: the state (so also \<open>enabled\<close> and the FIFO) is what it was and
  no M221 command is sent. Hence a second disable in a row, after any first one, is this
  no-op and \<open>enabled\<close> stays false.
\<close>

theorem disable_idempotent:
  "(\<not> enabled s \<longrightarrow>
      cmd_DISABLE_FILAMENT_DIAMETER_SENSOR s = (s, [RespondInfo MsgAlreadyOFF])
      \<and> multipliers (snd (cmd_DISABLE_FILAMENT_DIAMETER_SENSOR s)) = [])
   \<and> \<not> enabled (fst (cmd_DISABLE_FILAMENT_DIAMETER_SENSOR s))
   \<and> cmd_DISABLE_FILAMENT_DIAMETER_SENSOR (fst (cmd_DISABLE_FILAMENT_DIAMETER_SENSOR s))
       = (fst (cmd_DISABLE_FILAMENT_DIAMETER_SENSOR s), [RespondInfo MsgAlreadyOFF])"
  by (simp add: cmd_DISABLE_FILAMENT_DIAMETER_SENSOR_def)

theorem disable_idempotent_witness:
  "\<not> enabled st_example
   \<and> cmd_DISABLE_FILAMENT_DIAMETER_SENSOR st_example
       = (st_example, [RespondInfo MsgAlreadyOFF])
   \<and> multipliers (snd (cmd_DISABLE_FILAMENT_DIAMETER_SENSOR st_example)) = []"
proof -
  have h: "\<not> enabled st_example"
    by (simp add: st_example_def)
  with disable_idempotent [of st_example] show ?thesis
    by blast
qed

subsection \<open>The FIFO head\<close>

text \<open>
  Claim C10. At every tick, from any state, the FIFO is not empty once the enqueue step
  is done, so the head access of the dequeue step does not raise IndexError, and neither
  does the tick.
\<close>

theorem fifo_head_access_never_on_empty_queue:
  "fifo (fst (tc_enqueue s (epos + measurement_delay s))) \<noteq> []
   \<and> tc_resolve (fst (tc_enqueue s (epos + measurement_delay s))) epos \<noteq> Inl IndexError
   \<and> timer_callback s eventtime epos \<noteq> Inl IndexError"
proof -
  let ?s1 = "fst (tc_enqueue s (epos + measurement_delay s))"
  have ne: "fifo ?s1 \<noteq> []"
    by (rule tc_enqueue_nonempty)
  then have res: "tc_resolve ?s1 epos \<noteq> Inl IndexError"
    by (rule tc_resolve_no_IndexError)
  have "timer_callback s eventtime epos \<noteq> Inl IndexError"
    using res
    by (auto simp add: timer_callback_def Let_def split_def then_do_Inl tc_percent_def)
  with ne res show ?thesis
    by simp
qed

end
